theory Spec2Isabelle
  imports Main
begin

section \<open>Holden Viva steering wheel controls to JVC head unit\<close>

text \<open>
  A shallow embedding of \<^verbatim>\<open>src/HoldenVivaJVC/HoldenVivaJVC.ino\<close>. The sketch samples one
  analog channel, matches the sample to one of five buttons and drives five digital lines
  of the head unit. The sketch's \<^verbatim>\<open>int\<close> is the 16-bit integer of the AVR; the only
  operations the sketch applies to integers are comparisons with constants, so no
  arithmetic can wrap and the values are modelled as \<open>int\<close>.
\<close>

subsection \<open>Pins and button codes\<close>

definition A0 :: int where
  \<comment> \<open>The Arduino core's name of the first analog channel (14 on the ATmega328 boards). The
      sketch reads no other channel, so only the identity of the constant matters.\<close>
  "A0 = 14"

definition sensorPin :: int where "sensorPin = A0"

definition powerPin :: int where "powerPin = 9"
definition modePin :: int where "modePin = 2"
definition seekPin :: int where "seekPin = 7"
definition volAPin :: int where "volAPin = 6"
definition volBPin :: int where "volBPin = 5"

text \<open>
  The sketch keeps the button as an \<^verbatim>\<open>int\<close> and documents the codes in a comment
  (``Modes available''): 0 none, 1 Vol Down, 2 Vol Up, 3 Seek, 4 Mode, 5 Pwr.
\<close>

definition BTN_NONE :: int where "BTN_NONE = 0"
definition BTN_VOL_DOWN :: int where "BTN_VOL_DOWN = 1"
definition BTN_VOL_UP :: int where "BTN_VOL_UP = 2"
definition BTN_SEEK :: int where "BTN_SEEK = 3"
definition BTN_MODE :: int where "BTN_MODE = 4"
definition BTN_PWR :: int where "BTN_PWR = 5"

subsection \<open>The board\<close>

datatype direction = INPUT | OUTPUT

datatype level = LOW | HIGH

datatype event =
    SerialBegin nat
  | Println string
  | PinMode int direction
  | DigitalWrite int level
  | Delay nat

text \<open>
  The state the sketch acts on: for every pin its direction and the level last written to
  it, the global \<^verbatim>\<open>currentButton\<close>, and the calls made so far, oldest first. The global
  \<^verbatim>\<open>sensorValue\<close> is never read or written by the sketch and is left out.
\<close>

record board =
  pin_dir :: "int \<Rightarrow> direction"
  pin_level :: "int \<Rightarrow> level"
  currentButton :: int
  trace :: "event list"

definition power_on :: board where
  \<comment> \<open>The board at reset: every pin an input, every output latch low, \<^verbatim>\<open>currentButton = 0\<close>
      as the sketch initialises it.\<close>
  "power_on = \<lparr>pin_dir = (\<lambda>_. INPUT), pin_level = (\<lambda>_. LOW), currentButton = 0, trace = []\<rparr>"

definition emit :: "event \<Rightarrow> board \<Rightarrow> board" where
  "emit e b = b\<lparr>trace := trace b @ [e]\<rparr>"

definition pinMode :: "int \<Rightarrow> direction \<Rightarrow> board \<Rightarrow> board" where
  \<comment> \<open>Modelled from the spec: the Arduino core is not part of the repository. Its
      \<^verbatim>\<open>pinMode\<close> is the capability \<^verbatim>\<open>setDirection\<close> of the spec's hardware interface: each
      line is ``independently switchable between high-impedance input and driven
      output''.\<close>
  "pinMode p d b = emit (PinMode p d) (b\<lparr>pin_dir := (pin_dir b)(p := d)\<rparr>)"

definition digitalWrite :: "int \<Rightarrow> level \<Rightarrow> board \<Rightarrow> board" where
  \<comment> \<open>Modelled from the spec: the Arduino core is not part of the repository. Its
      \<^verbatim>\<open>digitalWrite\<close> is the capability \<^verbatim>\<open>setLevel\<close>: it selects the logic level of the
      line and leaves the direction alone.\<close>
  "digitalWrite p v b = emit (DigitalWrite p v) (b\<lparr>pin_level := (pin_level b)(p := v)\<rparr>)"

definition delay :: "nat \<Rightarrow> board \<Rightarrow> board" where
  \<comment> \<open>Modelled from the spec: a blocking sleep of the given number of milliseconds; it is
      recorded and changes nothing else.\<close>
  "delay ms b = emit (Delay ms) b"

definition println :: "string \<Rightarrow> board \<Rightarrow> board" where
  \<comment> \<open>Modelled from the spec: \<^verbatim>\<open>Serial.println\<close>, the write-only diagnostic stream.\<close>
  "println str b = emit (Println str) b"

definition serialBegin :: "nat \<Rightarrow> board \<Rightarrow> board" where
  \<comment> \<open>Modelled from the spec: \<^verbatim>\<open>Serial.begin\<close>, opening the diagnostic stream.\<close>
  "serialBegin baud b = emit (SerialBegin baud) b"

definition analogRead :: "int \<Rightarrow> int list \<Rightarrow> (int \<times> int list) option" where
  \<comment> \<open>Modelled from the spec: \<^verbatim>\<open>readAnalog\<close>. The samples that the channel will deliver are
      a script, consumed one per read; \<open>None\<close> says that the script has ended, so the call
      is still waiting for a sample.\<close>
  "analogRead p xs = (case xs of [] \<Rightarrow> None | x # ys \<Rightarrow> Some (x, ys))"

subsection \<open>The classifier\<close>

definition button_of_sample :: "int \<Rightarrow> int" where
  \<comment> \<open>The body of \<^verbatim>\<open>getButton\<close> after the read: the chain of returns on the sample \<open>s\<close>.\<close>
  "button_of_sample s =
     (if s < 244 then 1
      else if s > 244 \<and> s < 619 then 2
      else if s > 619 \<and> s < 796 then 3
      else if s > 796 \<and> s < 907 then 4
      else if s > 907 \<and> s < 988 then 5
      else 0)"

definition getButton :: "int list \<Rightarrow> board \<Rightarrow> (int \<times> int list) option" where
  \<comment> \<open>\<^verbatim>\<open>getButton\<close> has the whole board in scope (every variable of the sketch is global);
      it reads one sample and touches nothing.\<close>
  "getButton xs b =
     (case analogRead sensorPin xs of
        None \<Rightarrow> None
      | Some (s, ys) \<Rightarrow> Some (button_of_sample s, ys))"

definition classify_spec :: "int \<Rightarrow> int" where
  \<comment> \<open>The classifier as the specification words it (half-open bands with the cut points
      T1 = 244, T2 = 619, T3 = 796, T4 = 907, T5 = 988), for comparison with
      \<open>button_of_sample\<close>.\<close>
  "classify_spec s =
     (if s < 244 then BTN_VOL_DOWN
      else if 244 \<le> s \<and> s < 619 then BTN_VOL_UP
      else if 619 \<le> s \<and> s < 796 then BTN_SEEK
      else if 796 \<le> s \<and> s < 907 then BTN_MODE
      else if 907 \<le> s \<and> s < 988 then BTN_PWR
      else BTN_NONE)"

subsection \<open>Setup and the volume routines\<close>

text \<open>
  A sequence of statements is a chain of \<open>let\<close>s that rebinds the board \<open>b\<close>, one
  binding for each statement, in the order of the source.
\<close>

definition setup_sketch :: "board \<Rightarrow> board" where
  \<comment> \<open>The sketch's \<^verbatim>\<open>setup()\<close>; the bare name is a keyword of Isabelle.\<close>
  "setup_sketch b =
     (let b = serialBegin 57600 b;
          b = pinMode powerPin INPUT b;
          b = pinMode modePin INPUT b;
          b = pinMode seekPin INPUT b;
          b = pinMode volAPin OUTPUT b;
          b = pinMode volBPin OUTPUT b;
          b = digitalWrite volAPin LOW b;
          b = digitalWrite volBPin LOW b
      in b)"

definition setupVolume :: "board \<Rightarrow> board" where
  "setupVolume b =
     (let b = pinMode volAPin OUTPUT b;
          b = pinMode volBPin OUTPUT b;
          b = digitalWrite volAPin LOW b;
          b = digitalWrite volBPin LOW b
      in b)"

definition resetVolume :: "board \<Rightarrow> board" where
  "resetVolume b =
     (let b = pinMode volAPin INPUT b;
          b = pinMode volBPin INPUT b
      in b)"

definition volumeDown :: "board \<Rightarrow> board" where
  "volumeDown b =
     (let b = setupVolume b;
          b = digitalWrite volBPin HIGH b;
          b = delay 10 b;
          b = digitalWrite volAPin HIGH b;
          b = delay 10 b;
          b = digitalWrite volBPin LOW b;
          b = delay 10 b;
          b = digitalWrite volAPin LOW b;
          b = delay 10 b
      in resetVolume b)"

definition volumeUp :: "board \<Rightarrow> board" where
  "volumeUp b =
     (let b = setupVolume b;
          b = digitalWrite volAPin HIGH b;
          b = delay 10 b;
          b = digitalWrite volBPin HIGH b;
          b = delay 10 b;
          b = digitalWrite volAPin LOW b;
          b = delay 10 b;
          b = digitalWrite volBPin LOW b;
          b = delay 10 b
      in resetVolume b)"

subsection \<open>The main loop\<close>

text \<open>
  A run of a piece of the sketch on a script of samples gives the board it reached and,
  when the piece returned, the samples not yet consumed. \<open>None\<close> in the second component
  says that the script ended while the code was waiting for a sample: the code has not
  returned, and the board is the one it reached.
\<close>

type_synonym run = "board \<times> int list option"

fun release_wait :: "int \<Rightarrow> int list \<Rightarrow> board \<Rightarrow> run" where
  \<comment> \<open>\<^verbatim>\<open>while(getButton() == k){ delay(50); }\<close>\<close>
  "release_wait k [] b = (b, None)"
| "release_wait k (x # xs) b =
     (if button_of_sample x = k then release_wait k xs (delay 50 b) else (b, Some xs))"

definition and_then :: "run \<Rightarrow> (int list \<Rightarrow> board \<Rightarrow> run) \<Rightarrow> run" where
  \<comment> \<open>Sequencing: the next statement runs only when the previous one returned.\<close>
  "and_then r f = (case r of (b, None) \<Rightarrow> (b, None) | (b, Some xs) \<Rightarrow> f xs b)"

text \<open>The five conditional statements in the body of \<^verbatim>\<open>loop\<close>, in the order of the source.\<close>

definition volumeDownBranch :: "int list \<Rightarrow> board \<Rightarrow> run" where
  "volumeDownBranch xs b =
     (if currentButton b = 1 then
        (let b = println ''Volume Down'' b;
             b = volumeDown b;
             b = delay 50 b
         in (b, Some xs))
      else (b, Some xs))"

definition volumeUpBranch :: "int list \<Rightarrow> board \<Rightarrow> run" where
  "volumeUpBranch xs b =
     (if currentButton b = 2 then
        (let b = println ''Volume Up'' b;
             b = volumeUp b;
             b = delay 50 b
         in (b, Some xs))
      else (b, Some xs))"

definition seekBranch :: "int list \<Rightarrow> board \<Rightarrow> run" where
  "seekBranch xs b =
     (if currentButton b = 3 then
        (let b = println ''Seek: Down'' b;
             b = pinMode seekPin OUTPUT b;
             b = digitalWrite seekPin LOW b
         in and_then (release_wait 3 xs b)
              (\<lambda>ys b.
                 let b = println ''Seek: Up'' b;
                     b = digitalWrite seekPin HIGH b;
                     b = pinMode seekPin INPUT b
                 in (b, Some ys)))
      else (b, Some xs))"

definition modeBranch :: "int list \<Rightarrow> board \<Rightarrow> run" where
  "modeBranch xs b =
     (if currentButton b = 4 then
        (let b = println ''Mode: Down'' b;
             b = pinMode modePin OUTPUT b;
             b = digitalWrite modePin LOW b
         in and_then (release_wait 4 xs b)
              (\<lambda>ys b.
                 let b = println ''Mode: Up'' b;
                     b = digitalWrite modePin HIGH b;
                     b = pinMode modePin INPUT b
                 in (b, Some ys)))
      else (b, Some xs))"

definition powerBranch :: "int list \<Rightarrow> board \<Rightarrow> run" where
  "powerBranch xs b =
     (if currentButton b = 5 then
        (let b = println ''Power: Down'' b;
             b = pinMode powerPin OUTPUT b;
             b = digitalWrite powerPin LOW b
         in and_then (release_wait 5 xs b)
              (\<lambda>ys b.
                 let b = println ''Power: Up'' b;
                     b = digitalWrite powerPin HIGH b;
                     b = pinMode powerPin INPUT b
                 in (b, Some ys)))
      else (b, Some xs))"

definition loop :: "int list \<Rightarrow> board \<Rightarrow> run" where
  "loop xs b =
     (case getButton xs b of
        None \<Rightarrow> (b, None)
      | Some (v, ys) \<Rightarrow>
          (let b = b\<lparr>currentButton := v\<rparr>
           in and_then
                (if currentButton b \<noteq> 0 then
                   and_then (and_then (and_then (and_then
                     (volumeDownBranch ys b)
                     volumeUpBranch) seekBranch) modeBranch) powerBranch
                 else (b, Some ys))
                (\<lambda>zs b. (delay 100 b, Some zs))))"


subsection \<open>Observations\<close>

definition events_since :: "board \<Rightarrow> board \<Rightarrow> event list" where
  \<comment> \<open>The calls made on the way from the board \<open>b\<close> to the later board \<open>c\<close>.\<close>
  "events_since b c = drop (length (trace b)) (trace c)"


fun settle :: "event list \<Rightarrow> nat" where
  \<comment> \<open>The milliseconds slept before the next call that is not a sleep.\<close>
  "settle (Delay n # es) = n + settle es"
| "settle es = 0"

fun timed_edges ::
  "(int \<Rightarrow> direction) \<Rightarrow> (int \<Rightarrow> level) \<Rightarrow> event list \<Rightarrow> (int \<times> level \<times> nat) list" where
  \<comment> \<open>The edges that a sequence of calls produces, from given directions and levels: an
      edge is a write that changes the level of a driven line; it is listed with its pin,
      its new level and the time slept after it.\<close>
  "timed_edges d l [] = []"
| "timed_edges d l (PinMode p m # es) = timed_edges (d(p := m)) l es"
| "timed_edges d l (DigitalWrite p v # es) =
     (if d p = OUTPUT \<and> l p \<noteq> v then [(p, v, settle es)] else []) @
     timed_edges d (l(p := v)) es"
| "timed_edges d l (e # es) = timed_edges d l es"

definition swap_vol :: "int \<Rightarrow> int" where
  \<comment> \<open>Exchanging the two volume lines.\<close>
  "swap_vol p = (if p = volAPin then volBPin else if p = volBPin then volAPin else p)"

definition branch_entry :: "event \<Rightarrow> bool" where
  \<comment> \<open>The first statement of each of the five action branches of \<^verbatim>\<open>loop\<close> prints a message
      that no other statement prints; the message marks the entry into the branch.\<close>
  "branch_entry e =
     (e = Println ''Volume Down'' \<or> e = Println ''Volume Up'' \<or> e = Println ''Seek: Down'' \<or>
      e = Println ''Mode: Down'' \<or> e = Println ''Power: Down'')"

definition dispatched :: "event list \<Rightarrow> event list" where
  "dispatched es = filter branch_entry es"

definition held :: "int \<Rightarrow> int \<Rightarrow> string \<Rightarrow> string \<Rightarrow> int list \<Rightarrow> board \<Rightarrow> run" where
  \<comment> \<open>The body that the Seek, Mode and Power branches share up to the pin, the code and the
      two messages; the three branches are shown below to be instances of it.\<close>
  "held p k dn up xs b =
     and_then (release_wait k xs (digitalWrite p LOW (pinMode p OUTPUT (println dn b))))
       (\<lambda>ys c. (pinMode p INPUT (digitalWrite p HIGH (println up c)), Some ys))"

section \<open>Basic facts\<close>

lemmas pin_defs = A0_def sensorPin_def powerPin_def modePin_def seekPin_def volAPin_def volBPin_def

lemmas btn_defs = BTN_NONE_def BTN_VOL_DOWN_def BTN_VOL_UP_def BTN_SEEK_def BTN_MODE_def BTN_PWR_def

subsection \<open>What each primitive changes\<close>

lemma pinMode_sel:
  "pin_dir (pinMode p d b) = (pin_dir b)(p := d)"
  "pin_level (pinMode p d b) = pin_level b"
  "currentButton (pinMode p d b) = currentButton b"
  "trace (pinMode p d b) = trace b @ [PinMode p d]"
  by (simp_all add: pinMode_def emit_def)

lemma digitalWrite_sel:
  "pin_dir (digitalWrite p v b) = pin_dir b"
  "pin_level (digitalWrite p v b) = (pin_level b)(p := v)"
  "currentButton (digitalWrite p v b) = currentButton b"
  "trace (digitalWrite p v b) = trace b @ [DigitalWrite p v]"
  by (simp_all add: digitalWrite_def emit_def)

lemma delay_sel:
  "pin_dir (delay n b) = pin_dir b"
  "pin_level (delay n b) = pin_level b"
  "currentButton (delay n b) = currentButton b"
  "trace (delay n b) = trace b @ [Delay n]"
  by (simp_all add: delay_def emit_def)

lemma println_sel:
  "pin_dir (println m b) = pin_dir b"
  "pin_level (println m b) = pin_level b"
  "currentButton (println m b) = currentButton b"
  "trace (println m b) = trace b @ [Println m]"
  by (simp_all add: println_def emit_def)

lemma serialBegin_sel:
  "pin_dir (serialBegin n b) = pin_dir b"
  "pin_level (serialBegin n b) = pin_level b"
  "currentButton (serialBegin n b) = currentButton b"
  "trace (serialBegin n b) = trace b @ [SerialBegin n]"
  by (simp_all add: serialBegin_def emit_def)

lemmas prim_sel = pinMode_sel digitalWrite_sel delay_sel println_sel serialBegin_sel

subsection \<open>The volume routines\<close>

lemma setupVolume_sel:
  "pin_dir (setupVolume b) = (pin_dir b)(volAPin := OUTPUT, volBPin := OUTPUT)"
  "pin_level (setupVolume b) = (pin_level b)(volAPin := LOW, volBPin := LOW)"
  "currentButton (setupVolume b) = currentButton b"
  "trace (setupVolume b) = trace b @ [PinMode volAPin OUTPUT, PinMode volBPin OUTPUT,
     DigitalWrite volAPin LOW, DigitalWrite volBPin LOW]"
  by (simp_all add: setupVolume_def Let_def prim_sel)

lemma resetVolume_sel:
  "pin_dir (resetVolume b) = (pin_dir b)(volAPin := INPUT, volBPin := INPUT)"
  "pin_level (resetVolume b) = pin_level b"
  "currentButton (resetVolume b) = currentButton b"
  "trace (resetVolume b) = trace b @ [PinMode volAPin INPUT, PinMode volBPin INPUT]"
  by (simp_all add: resetVolume_def Let_def prim_sel)

lemma volumeUp_sel:
  "pin_dir (volumeUp b) = (pin_dir b)(volAPin := INPUT, volBPin := INPUT)"
  "pin_level (volumeUp b) = (pin_level b)(volAPin := LOW, volBPin := LOW)"
  "currentButton (volumeUp b) = currentButton b"
  "trace (volumeUp b) = trace b @ [PinMode volAPin OUTPUT, PinMode volBPin OUTPUT,
     DigitalWrite volAPin LOW, DigitalWrite volBPin LOW,
     DigitalWrite volAPin HIGH, Delay 10, DigitalWrite volBPin HIGH, Delay 10,
     DigitalWrite volAPin LOW, Delay 10, DigitalWrite volBPin LOW, Delay 10,
     PinMode volAPin INPUT, PinMode volBPin INPUT]"
  by (auto simp add: volumeUp_def Let_def prim_sel setupVolume_sel resetVolume_sel pin_defs)

lemma volumeDown_sel:
  "pin_dir (volumeDown b) = (pin_dir b)(volAPin := INPUT, volBPin := INPUT)"
  "pin_level (volumeDown b) = (pin_level b)(volAPin := LOW, volBPin := LOW)"
  "currentButton (volumeDown b) = currentButton b"
  "trace (volumeDown b) = trace b @ [PinMode volAPin OUTPUT, PinMode volBPin OUTPUT,
     DigitalWrite volAPin LOW, DigitalWrite volBPin LOW,
     DigitalWrite volBPin HIGH, Delay 10, DigitalWrite volAPin HIGH, Delay 10,
     DigitalWrite volBPin LOW, Delay 10, DigitalWrite volAPin LOW, Delay 10,
     PinMode volAPin INPUT, PinMode volBPin INPUT]"
  by (auto simp add: volumeDown_def Let_def prim_sel setupVolume_sel resetVolume_sel pin_defs)

subsection \<open>The release wait\<close>

lemma release_wait_sel:
  "pin_dir (fst (release_wait k xs b)) = pin_dir b"
  "pin_level (fst (release_wait k xs b)) = pin_level b"
  "currentButton (fst (release_wait k xs b)) = currentButton b"
  by (induction xs arbitrary: b; simp add: prim_sel)+

lemma release_wait_trace:
  "\<exists>es. trace (fst (release_wait k xs b)) = trace b @ es \<and> dispatched es = []"
proof (induction xs arbitrary: b)
  case Nil
  show ?case by (simp add: dispatched_def)
next
  case (Cons x xs)
  show ?case
  proof (cases "button_of_sample x = k")
    case True
    from Cons.IH [of "delay 50 b"] obtain es where
      "trace (fst (release_wait k xs (delay 50 b))) = trace (delay 50 b) @ es" "dispatched es = []"
      by blast
    then have "trace (fst (release_wait k (x # xs) b)) = trace b @ (Delay 50 # es) \<and>
        dispatched (Delay 50 # es) = []"
      using True by (simp add: prim_sel dispatched_def branch_entry_def)
    then show ?thesis by blast
  next
    case False
    then show ?thesis by (simp add: dispatched_def)
  qed
qed


subsection \<open>A level-held press\<close>

lemma and_then_simps:
  "and_then (b, Some xs) f = f xs b"
  "and_then (b, None) f = (b, None)"
  by (simp_all add: and_then_def)

lemma held_sel:
  "pin_dir (fst (held p k dn up xs b)) p =
     (if snd (held p k dn up xs b) = None then OUTPUT else INPUT)"
  "q \<noteq> p \<Longrightarrow> pin_dir (fst (held p k dn up xs b)) q = pin_dir b q"
  "q \<noteq> p \<Longrightarrow> pin_level (fst (held p k dn up xs b)) q = pin_level b q"
  "currentButton (fst (held p k dn up xs b)) = currentButton b"
proof -
  let ?b1 = "digitalWrite p LOW (pinMode p OUTPUT (println dn b))"
  obtain c r where w: "release_wait k xs ?b1 = (c, r)"
    by force
  have c: "pin_dir c = (pin_dir b)(p := OUTPUT)" "pin_level c = (pin_level b)(p := LOW)"
    "currentButton c = currentButton b"
    using release_wait_sel [of k xs ?b1] by (simp_all add: w prim_sel)
  show "pin_dir (fst (held p k dn up xs b)) p =
      (if snd (held p k dn up xs b) = None then OUTPUT else INPUT)"
    by (cases r) (simp_all add: held_def w c and_then_simps prim_sel)
  show "q \<noteq> p \<Longrightarrow> pin_dir (fst (held p k dn up xs b)) q = pin_dir b q"
    by (cases r) (simp_all add: held_def w c and_then_simps prim_sel)
  show "q \<noteq> p \<Longrightarrow> pin_level (fst (held p k dn up xs b)) q = pin_level b q"
    by (cases r) (simp_all add: held_def w c and_then_simps prim_sel)
  show "currentButton (fst (held p k dn up xs b)) = currentButton b"
    by (cases r) (simp_all add: held_def w c and_then_simps prim_sel)
qed


lemma held_trace:
  assumes "\<not> branch_entry (Println up)"
  shows "\<exists>es. trace (fst (held p k dn up xs b)) = trace b @ Println dn # es \<and> dispatched es = []"
proof -
  let ?b1 = "digitalWrite p LOW (pinMode p OUTPUT (println dn b))"
  obtain c r where w: "release_wait k xs ?b1 = (c, r)"
    by force
  from release_wait_trace [of k xs ?b1] w obtain es where
    es: "trace c = trace ?b1 @ es" "dispatched es = []"
    by auto
  show ?thesis
  proof (cases r)
    case None
    then have "trace (fst (held p k dn up xs b)) =
        trace b @ Println dn # ([PinMode p OUTPUT, DigitalWrite p LOW] @ es)"
      by (simp add: held_def w es and_then_simps prim_sel)
    moreover have "dispatched ([PinMode p OUTPUT, DigitalWrite p LOW] @ es) = []"
      using es(2) by (simp add: dispatched_def branch_entry_def)
    ultimately show ?thesis by blast
  next
    case (Some zs)
    then have "trace (fst (held p k dn up xs b)) =
        trace b @ Println dn #
          ([PinMode p OUTPUT, DigitalWrite p LOW] @ es @
           [Println up, DigitalWrite p HIGH, PinMode p INPUT])"
      by (simp add: held_def w es and_then_simps prim_sel)
    moreover have "dispatched ([PinMode p OUTPUT, DigitalWrite p LOW] @ es @
        [Println up, DigitalWrite p HIGH, PinMode p INPUT]) = []"
      using es(2) assms by (simp add: dispatched_def branch_entry_def)
    ultimately show ?thesis by blast
  qed
qed

subsection \<open>The branches of the loop\<close>

lemma branch_taken:
  "currentButton b = 1 \<Longrightarrow>
     volumeDownBranch xs b = (delay 50 (volumeDown (println ''Volume Down'' b)), Some xs)"
  "currentButton b = 2 \<Longrightarrow>
     volumeUpBranch xs b = (delay 50 (volumeUp (println ''Volume Up'' b)), Some xs)"
  "currentButton b = 3 \<Longrightarrow> seekBranch xs b = held seekPin 3 ''Seek: Down'' ''Seek: Up'' xs b"
  "currentButton b = 4 \<Longrightarrow> modeBranch xs b = held modePin 4 ''Mode: Down'' ''Mode: Up'' xs b"
  "currentButton b = 5 \<Longrightarrow> powerBranch xs b = held powerPin 5 ''Power: Down'' ''Power: Up'' xs b"
  by (simp_all add: volumeDownBranch_def volumeUpBranch_def seekBranch_def modeBranch_def
      powerBranch_def held_def Let_def)

lemma branch_not_taken:
  "currentButton b \<noteq> 1 \<Longrightarrow> volumeDownBranch xs b = (b, Some xs)"
  "currentButton b \<noteq> 2 \<Longrightarrow> volumeUpBranch xs b = (b, Some xs)"
  "currentButton b \<noteq> 3 \<Longrightarrow> seekBranch xs b = (b, Some xs)"
  "currentButton b \<noteq> 4 \<Longrightarrow> modeBranch xs b = (b, Some xs)"
  "currentButton b \<noteq> 5 \<Longrightarrow> powerBranch xs b = (b, Some xs)"
  by (simp_all add: volumeDownBranch_def volumeUpBranch_def seekBranch_def modeBranch_def
      powerBranch_def)

lemma branch_skip:
  "currentButton (fst r) \<noteq> 1 \<Longrightarrow> and_then r volumeDownBranch = r"
  "currentButton (fst r) \<noteq> 2 \<Longrightarrow> and_then r volumeUpBranch = r"
  "currentButton (fst r) \<noteq> 3 \<Longrightarrow> and_then r seekBranch = r"
  "currentButton (fst r) \<noteq> 4 \<Longrightarrow> and_then r modeBranch = r"
  "currentButton (fst r) \<noteq> 5 \<Longrightarrow> and_then r powerBranch = r"
  by (cases r; simp add: and_then_def branch_not_taken split: option.splits)+

text \<open>One iteration, by the code that the poll returned.\<close>

lemma loop_by_button:
  assumes "getButton xs b = Some (v, ys)"
  shows "loop xs b =
     (if v = 1 then
        (delay 100 (delay 50 (volumeDown (println ''Volume Down'' (b\<lparr>currentButton := v\<rparr>)))),
         Some ys)
      else if v = 2 then
        (delay 100 (delay 50 (volumeUp (println ''Volume Up'' (b\<lparr>currentButton := v\<rparr>)))),
         Some ys)
      else if v = 3 then
        and_then (held seekPin 3 ''Seek: Down'' ''Seek: Up'' ys (b\<lparr>currentButton := v\<rparr>))
          (\<lambda>zs c. (delay 100 c, Some zs))
      else if v = 4 then
        and_then (held modePin 4 ''Mode: Down'' ''Mode: Up'' ys (b\<lparr>currentButton := v\<rparr>))
          (\<lambda>zs c. (delay 100 c, Some zs))
      else if v = 5 then
        and_then (held powerPin 5 ''Power: Down'' ''Power: Up'' ys (b\<lparr>currentButton := v\<rparr>))
          (\<lambda>zs c. (delay 100 c, Some zs))
      else (delay 100 (b\<lparr>currentButton := v\<rparr>), Some ys))"
proof -
  let ?b = "b\<lparr>currentButton := v\<rparr>"
  have l: "loop xs b =
      and_then
        (if v \<noteq> 0 then
           and_then (and_then (and_then (and_then
             (volumeDownBranch ys ?b) volumeUpBranch) seekBranch) modeBranch) powerBranch
         else (?b, Some ys))
        (\<lambda>zs c. (delay 100 c, Some zs))"
    using assms by (simp add: loop_def Let_def)
  consider "v = 1" | "v = 2" | "v = 3" | "v = 4" | "v = 5" | "v \<notin> {1, 2, 3, 4, 5}" by auto
  then show ?thesis
  proof cases
    case 1
    then show ?thesis
      by (simp add: l and_then_simps branch_taken branch_not_taken branch_skip prim_sel
          volumeDown_sel)
  next
    case 2
    then show ?thesis
      by (simp add: l and_then_simps branch_taken branch_not_taken branch_skip prim_sel
          volumeUp_sel)
  next
    case 3
    then show ?thesis
      by (simp add: l and_then_simps branch_taken branch_not_taken branch_skip held_sel)
  next
    case 4
    then show ?thesis
      by (simp add: l and_then_simps branch_taken branch_not_taken branch_skip held_sel)
  next
    case 5
    then show ?thesis
      by (simp add: l and_then_simps branch_taken branch_not_taken branch_skip held_sel)
  next
    case 6
    then show ?thesis
      by (simp add: l and_then_simps branch_not_taken)
  qed
qed

subsection \<open>An invariant of the boards between iterations\<close>



section \<open>The classifier\<close>

text \<open>
  C1, as amended. A sample that equals one of the five calibration thresholds belongs to
  no button: \<^verbatim>\<open>getButton\<close> returns the code of no button at 244, 619, 796, 907 and 988,
  since every band of the sketch excludes both of its end points.
\<close>

theorem getButton_at_thresholds:
  "getButton (244 # xs) b = Some (BTN_NONE, xs) \<and>
   getButton (619 # xs) b = Some (BTN_NONE, xs) \<and>
   getButton (796 # xs) b = Some (BTN_NONE, xs) \<and>
   getButton (907 # xs) b = Some (BTN_NONE, xs) \<and>
   getButton (988 # xs) b = Some (BTN_NONE, xs)"
  by (simp add: getButton_def analogRead_def button_of_sample_def btn_defs)

text \<open>
  C1 as stated fails: at the sample 244, on the board at reset, \<^verbatim>\<open>getButton\<close> returns the
  code of no button and not Volume Up.
\<close>

theorem getButton_244_not_volume_up:
  "getButton [244] power_on = Some (BTN_NONE, []) \<and>
   getButton [244] power_on \<noteq> Some (BTN_VOL_UP, [])"
  by (simp add: getButton_def analogRead_def button_of_sample_def btn_defs)

text \<open>
  C2, as amended. For every sample \<^verbatim>\<open>getButton\<close> returns exactly one of the six codes, which
  are distinct. The bands are: Volume Down below 244, Volume Up strictly between 244 and
  619, Seek strictly between 619 and 796, Mode strictly between 796 and 907, Power
  strictly between 907 and 988, and no button from 988 on and at 244, 619, 796 and 907.
  Away from these four samples the result is that of the half-open bands of the
  specification.
\<close>

theorem getButton_bands:
  "getButton (s # xs) b = Some (button_of_sample s, xs) \<and>
   button_of_sample s \<in> {BTN_NONE, BTN_VOL_DOWN, BTN_VOL_UP, BTN_SEEK, BTN_MODE, BTN_PWR} \<and>
   distinct [BTN_NONE, BTN_VOL_DOWN, BTN_VOL_UP, BTN_SEEK, BTN_MODE, BTN_PWR] \<and>
   (button_of_sample s = BTN_VOL_DOWN \<longleftrightarrow> s < 244) \<and>
   (button_of_sample s = BTN_VOL_UP \<longleftrightarrow> 244 < s \<and> s < 619) \<and>
   (button_of_sample s = BTN_SEEK \<longleftrightarrow> 619 < s \<and> s < 796) \<and>
   (button_of_sample s = BTN_MODE \<longleftrightarrow> 796 < s \<and> s < 907) \<and>
   (button_of_sample s = BTN_PWR \<longleftrightarrow> 907 < s \<and> s < 988) \<and>
   (button_of_sample s = BTN_NONE \<longleftrightarrow> s \<in> {244, 619, 796, 907} \<or> 988 \<le> s) \<and>
   (s \<notin> {244, 619, 796, 907} \<longrightarrow> button_of_sample s = classify_spec s)"
  by (auto simp add: getButton_def analogRead_def button_of_sample_def classify_spec_def btn_defs)

theorem getButton_bands_witness:
  "(500::int) \<notin> {244, 619, 796, 907} \<and>
   getButton [500] power_on = Some (classify_spec 500, []) \<and>
   classify_spec 500 = BTN_VOL_UP"
  using getButton_bands [of 500 "[]" power_on]
  by (simp add: classify_spec_def btn_defs)

text \<open>
  C2 as stated fails: the sample 619 lies in the range 0..1023 and in the half-open Seek
  band of the specification, and \<^verbatim>\<open>getButton\<close> returns the code of no button there.
\<close>

theorem getButton_619_outside_every_band:
  "(0::int) \<le> 619 \<and> (619::int) \<le> 1023 \<and> classify_spec 619 = BTN_SEEK \<and>
   getButton [619] power_on = Some (BTN_NONE, []) \<and>
   getButton [619] power_on \<noteq> Some (classify_spec 619, [])"
  by (simp add: getButton_def analogRead_def button_of_sample_def classify_spec_def btn_defs)

text \<open>
  C7. \<^verbatim>\<open>getButton\<close> maps the sample 100 to Volume Down, 500 to Volume Up, 700 to Seek, 850
  to Mode, 950 to Power and 1000 to no button, whatever the board and whatever samples
  follow.
\<close>

theorem getButton_scenario_1:
  "getButton (100 # xs) b = Some (BTN_VOL_DOWN, xs) \<and>
   getButton (500 # xs) b = Some (BTN_VOL_UP, xs) \<and>
   getButton (700 # xs) b = Some (BTN_SEEK, xs) \<and>
   getButton (850 # xs) b = Some (BTN_MODE, xs) \<and>
   getButton (950 # xs) b = Some (BTN_PWR, xs) \<and>
   getButton (1000 # xs) b = Some (BTN_NONE, xs)"
  by (simp add: getButton_def analogRead_def button_of_sample_def btn_defs)

text \<open>
  C8. \<^verbatim>\<open>getButton\<close> is a function of the sample it reads: on the sample \<open>s\<close> it returns the
  code \<open>button_of_sample s\<close>, and two calls that read the same sample return the same code
  whatever the two boards (directions, levels, \<^verbatim>\<open>currentButton\<close>, calls made so far) and
  whatever samples follow.
\<close>

theorem getButton_depends_on_sample_only:
  "getButton (s # xs) b = Some (button_of_sample s, xs) \<and>
   map_option fst (getButton (s # xs) b) = map_option fst (getButton (s # xs') b')"
  by (simp add: getButton_def analogRead_def)

section \<open>The output lines\<close>

text \<open>
  C3 fails on the code. On the board at reset, \<^verbatim>\<open>setup()\<close> leaves the two volume lines
  configured as outputs, and a poll that finds no button (sample 1000) makes no call but
  the closing sleep and leaves them outputs: two lines that emulate no press are driven.
\<close>

theorem volume_lines_driven_after_setup:
  "pin_dir (setup_sketch power_on) volAPin = OUTPUT \<and>
   pin_dir (setup_sketch power_on) volBPin = OUTPUT \<and>
   snd (loop [1000] (setup_sketch power_on)) = Some [] \<and>
   events_since (setup_sketch power_on) (fst (loop [1000] (setup_sketch power_on))) = [Delay 100] \<and>
   pin_dir (fst (loop [1000] (setup_sketch power_on))) volAPin = OUTPUT \<and>
   pin_dir (fst (loop [1000] (setup_sketch power_on))) volBPin = OUTPUT"
proof -
  have g: "getButton [1000] (setup_sketch power_on) = Some (0, [])"
    by (simp add: getButton_def analogRead_def button_of_sample_def)
  show ?thesis
    unfolding loop_by_button [OF g]
    by (simp add: setup_sketch_def Let_def prim_sel events_since_def pin_defs)
qed

text \<open>
  C4. From a board on which the levels last written to the two volume lines are low (every
  board between iterations is one), \<^verbatim>\<open>volumeUp\<close> and \<^verbatim>\<open>volumeDown\<close> each make the fourteen
  calls listed and produce exactly four edges, each followed by a sleep of 10 ms: A up, B
  up, A down, B down for Volume Up, and B up, A up, B down, A down for Volume Down. The
  edges of one are the edges of the other with the two lines exchanged, and after either
  routine both lines are inputs.
\<close>

theorem volume_quadrature:
  assumes "pin_level b volAPin = LOW" and "pin_level b volBPin = LOW"
  shows "events_since b (volumeUp b) =
           [PinMode volAPin OUTPUT, PinMode volBPin OUTPUT,
            DigitalWrite volAPin LOW, DigitalWrite volBPin LOW,
            DigitalWrite volAPin HIGH, Delay 10, DigitalWrite volBPin HIGH, Delay 10,
            DigitalWrite volAPin LOW, Delay 10, DigitalWrite volBPin LOW, Delay 10,
            PinMode volAPin INPUT, PinMode volBPin INPUT] \<and>
         events_since b (volumeDown b) =
           [PinMode volAPin OUTPUT, PinMode volBPin OUTPUT,
            DigitalWrite volAPin LOW, DigitalWrite volBPin LOW,
            DigitalWrite volBPin HIGH, Delay 10, DigitalWrite volAPin HIGH, Delay 10,
            DigitalWrite volBPin LOW, Delay 10, DigitalWrite volAPin LOW, Delay 10,
            PinMode volAPin INPUT, PinMode volBPin INPUT] \<and>
         timed_edges (pin_dir b) (pin_level b) (events_since b (volumeUp b)) =
           [(volAPin, HIGH, 10), (volBPin, HIGH, 10), (volAPin, LOW, 10), (volBPin, LOW, 10)] \<and>
         timed_edges (pin_dir b) (pin_level b) (events_since b (volumeDown b)) =
           [(volBPin, HIGH, 10), (volAPin, HIGH, 10), (volBPin, LOW, 10), (volAPin, LOW, 10)] \<and>
         timed_edges (pin_dir b) (pin_level b) (events_since b (volumeDown b)) =
           map (\<lambda>(p, v, ms). (swap_vol p, v, ms))
             (timed_edges (pin_dir b) (pin_level b) (events_since b (volumeUp b))) \<and>
         pin_dir (volumeUp b) volAPin = INPUT \<and> pin_dir (volumeUp b) volBPin = INPUT \<and>
         pin_dir (volumeDown b) volAPin = INPUT \<and> pin_dir (volumeDown b) volBPin = INPUT"
  using assms
  by (simp add: events_since_def volumeUp_sel volumeDown_sel swap_vol_def pin_defs)

theorem volume_quadrature_witness:
  "pin_level (setup_sketch power_on) volAPin = LOW \<and>
   pin_level (setup_sketch power_on) volBPin = LOW \<and>
   timed_edges (pin_dir (setup_sketch power_on)) (pin_level (setup_sketch power_on))
       (events_since (setup_sketch power_on) (volumeUp (setup_sketch power_on))) =
     [(volAPin, HIGH, 10), (volBPin, HIGH, 10), (volAPin, LOW, 10), (volBPin, LOW, 10)] \<and>
   timed_edges (pin_dir (setup_sketch power_on)) (pin_level (setup_sketch power_on))
       (events_since (setup_sketch power_on) (volumeDown (setup_sketch power_on))) =
     [(volBPin, HIGH, 10), (volAPin, HIGH, 10), (volBPin, LOW, 10), (volAPin, LOW, 10)] \<and>
   pin_dir (volumeUp (setup_sketch power_on)) volAPin = INPUT \<and>
   pin_dir (volumeUp (setup_sketch power_on)) volBPin = INPUT \<and>
   pin_dir (volumeDown (setup_sketch power_on)) volAPin = INPUT \<and>
   pin_dir (volumeDown (setup_sketch power_on)) volBPin = INPUT"
proof -
  have 1: "pin_level (setup_sketch power_on) volAPin = LOW"
    by (simp add: setup_sketch_def Let_def prim_sel pin_defs)
  have 2: "pin_level (setup_sketch power_on) volBPin = LOW"
    by (simp add: setup_sketch_def Let_def prim_sel pin_defs)
  show ?thesis using 1 2 volume_quadrature [OF 1 2] by blast
qed




text \<open>
  C6. When three polls in a row classify Seek and the next one does not, the iteration
  returns after these four samples and has made exactly the calls listed: the Seek line
  is switched to output and written low once, only the two sleeps of the wait pass while
  it is held, then it is written high once and switched back to input, and the closing
  sleep follows.
\<close>

theorem seek_held_three_polls:
  assumes "button_of_sample x1 = BTN_SEEK" and "button_of_sample x2 = BTN_SEEK"
    and "button_of_sample x3 = BTN_SEEK" and "button_of_sample y \<noteq> BTN_SEEK"
  shows "\<exists>c. loop (x1 # x2 # x3 # y # rest) b = (c, Some rest) \<and>
           events_since b c =
             [Println ''Seek: Down'', PinMode seekPin OUTPUT, DigitalWrite seekPin LOW,
              Delay 50, Delay 50,
              Println ''Seek: Up'', DigitalWrite seekPin HIGH, PinMode seekPin INPUT,
              Delay 100] \<and>
           pin_dir c seekPin = INPUT"
proof -
  have g: "getButton (x1 # x2 # x3 # y # rest) b = Some (3, x2 # x3 # y # rest)"
    using assms(1) by (simp add: getButton_def analogRead_def btn_defs)
  show ?thesis
    using assms unfolding loop_by_button [OF g]
    by (simp add: held_def and_then_simps prim_sel events_since_def btn_defs)
qed

theorem seek_held_three_polls_witness:
  "button_of_sample 700 = BTN_SEEK \<and> button_of_sample 1000 \<noteq> BTN_SEEK \<and>
   (\<exists>c. loop [700, 700, 700, 1000] (setup_sketch power_on) = (c, Some []) \<and>
      events_since (setup_sketch power_on) c =
        [Println ''Seek: Down'', PinMode seekPin OUTPUT, DigitalWrite seekPin LOW,
         Delay 50, Delay 50,
         Println ''Seek: Up'', DigitalWrite seekPin HIGH, PinMode seekPin INPUT,
         Delay 100] \<and>
      pin_dir c seekPin = INPUT)"
proof -
  have 1: "button_of_sample 700 = BTN_SEEK" by (simp add: button_of_sample_def btn_defs)
  have 2: "button_of_sample 1000 \<noteq> BTN_SEEK" by (simp add: button_of_sample_def btn_defs)
  show ?thesis
    using 1 2 seek_held_three_polls [OF 1 1 1 2, of "[]" "setup_sketch power_on"] by simp
qed

section \<open>The main loop\<close>

text \<open>
  C9. An iteration whose poll returns the code of no button returns, and changes the
  direction and the level of no pin; its only call is the closing sleep.
\<close>

theorem loop_none_changes_no_pin:
  assumes "getButton xs b = Some (BTN_NONE, ys)"
  shows "\<exists>c. loop xs b = (c, Some ys) \<and> pin_dir c = pin_dir b \<and> pin_level c = pin_level b \<and>
           trace c = trace b @ [Delay 100]"
  using assms by (simp add: loop_def Let_def and_then_def btn_defs prim_sel)

theorem loop_none_changes_no_pin_witness:
  "getButton [1000, 100] (setup_sketch power_on) = Some (BTN_NONE, [100]) \<and>
   (\<exists>c. loop [1000, 100] (setup_sketch power_on) = (c, Some [100]) \<and>
        pin_dir c = pin_dir (setup_sketch power_on) \<and>
        pin_level c = pin_level (setup_sketch power_on) \<and>
        trace c = trace (setup_sketch power_on) @ [Delay 100])"
proof -
  have h: "getButton [1000, 100] (setup_sketch power_on) = Some (BTN_NONE, [100])"
    by (simp add: getButton_def analogRead_def button_of_sample_def btn_defs)
  show ?thesis using h loop_none_changes_no_pin [OF h] by simp
qed

text \<open>
  C10. In one iteration, returned or still waiting for a release, at most one of the five
  action branches is entered: \<^verbatim>\<open>currentButton\<close> holds the code of the first poll of the
  iteration from then on, and the branch entered is the one of that code, if it is the
  code of a button, and none otherwise.
\<close>

theorem one_action_per_poll:
  "(case getButton xs b of
      None \<Rightarrow> loop xs b = (b, None)
    | Some (v, ys) \<Rightarrow>
        currentButton (fst (loop xs b)) = v \<and>
        dispatched (events_since b (fst (loop xs b))) =
          (if v = BTN_VOL_DOWN then [Println ''Volume Down'']
           else if v = BTN_VOL_UP then [Println ''Volume Up'']
           else if v = BTN_SEEK then [Println ''Seek: Down'']
           else if v = BTN_MODE then [Println ''Mode: Down'']
           else if v = BTN_PWR then [Println ''Power: Down'']
           else [])) \<and>
   length (dispatched (events_since b (fst (loop xs b)))) \<le> 1"
proof (cases "getButton xs b")
  case None
  then show ?thesis by (simp add: loop_def events_since_def dispatched_def)
next
  case (Some a)
  obtain v ys where g: "getButton xs b = Some (v, ys)" using Some by (cases a) simp
  let ?b = "b\<lparr>currentButton := v\<rparr>"
  let ?idle = "\<lambda>zs c. (delay 100 c, Some (zs::int list))"
  have h: "currentButton (fst (and_then (held p k dn up ys ?b) ?idle)) = v \<and>
      dispatched (events_since b (fst (and_then (held p k dn up ys ?b) ?idle)))
        = (if branch_entry (Println dn) then [Println dn] else [])"
    if "\<not> branch_entry (Println up)" for p k dn up
  proof -
    obtain d r where d: "held p k dn up ys ?b = (d, r)" by force
    from held_trace [OF that, of p k dn ys ?b] d obtain es where
      es: "trace d = trace b @ Println dn # es" "dispatched es = []" by auto
    have cb: "currentButton d = v" using held_sel(4) [of p k dn up ys ?b] d by simp
    show ?thesis
      using es cb
      by (cases r)
        (simp_all add: d and_then_simps prim_sel events_since_def dispatched_def branch_entry_def)
  qed
  have u: "\<not> branch_entry (Println ''Seek: Up'')" "\<not> branch_entry (Println ''Mode: Up'')"
    "\<not> branch_entry (Println ''Power: Up'')"
    by (simp_all add: branch_entry_def)
  let ?goal = "currentButton (fst (loop xs b)) = v \<and>
        dispatched (events_since b (fst (loop xs b))) =
          (if v = BTN_VOL_DOWN then [Println ''Volume Down'']
           else if v = BTN_VOL_UP then [Println ''Volume Up'']
           else if v = BTN_SEEK then [Println ''Seek: Down'']
           else if v = BTN_MODE then [Println ''Mode: Down'']
           else if v = BTN_PWR then [Println ''Power: Down'']
           else [])"
  consider "v = 1" | "v = 2" | "v = 3" | "v = 4" | "v = 5" | "v \<notin> {1, 2, 3, 4, 5}" by auto
  then have ?goal
  proof cases
    case 1
    then show ?thesis
      unfolding loop_by_button [OF g]
      by (simp add: btn_defs prim_sel volumeDown_sel events_since_def dispatched_def
          branch_entry_def)
  next
    case 2
    then show ?thesis
      unfolding loop_by_button [OF g]
      by (simp add: btn_defs prim_sel volumeUp_sel events_since_def dispatched_def
          branch_entry_def)
  next
    case 3
    then show ?thesis
      unfolding loop_by_button [OF g]
      using h [OF u(1), of seekPin 3 "''Seek: Down''"]
      by (simp add: btn_defs branch_entry_def)
  next
    case 4
    then show ?thesis
      unfolding loop_by_button [OF g]
      using h [OF u(2), of modePin 4 "''Mode: Down''"]
      by (simp add: btn_defs branch_entry_def)
  next
    case 5
    then show ?thesis
      unfolding loop_by_button [OF g]
      using h [OF u(3), of powerPin 5 "''Power: Down''"]
      by (simp add: btn_defs branch_entry_def)
  next
    case 6
    then show ?thesis
      unfolding loop_by_button [OF g]
      by (simp add: btn_defs prim_sel events_since_def dispatched_def branch_entry_def)
  qed
  then show ?thesis using g by simp
qed

end
